theory Spec2Isabelle
  imports Main "HOL-Library.Word"
begin

section \<open>The AIDL fingerprint session over the legacy HAL (aidl/fingerprint/Session.cpp)\<close>

text \<open>
  A shallow embedding of \<^verbatim>\<open>Session.cpp\<close>. \<^verbatim>\<open>int32_t\<close> and
  \<^verbatim>\<open>uint32_t\<close> are 32-bit words (comparisons of \<^verbatim>\<open>int32_t\<close> are signed:
  \<open>\<le>s\<close>), bytes are 8-bit words. The time-out handed to \<^verbatim>\<open>sleep_for\<close> is an
  \<open>int\<close> of milliseconds: the source does no arithmetic on it.
\<close>

type_synonym int32 = "32 word"
type_synonym uint8 = "8 word"

subsection \<open>Constants of the legacy header\<close>

text \<open>
  \<^verbatim>\<open>hardware/fingerprint.h\<close> is not part of the sources, so the enumerators
  of \<^verbatim>\<open>fingerprint_error_t\<close> and \<^verbatim>\<open>fingerprint_acquired_info_t\<close> that
  \<^verbatim>\<open>Session.cpp\<close> names are parameters of the model, one field each.
\<close>

record fingerprint_h =
  FINGERPRINT_ERROR_HW_UNAVAILABLE :: int32
  FINGERPRINT_ERROR_UNABLE_TO_PROCESS :: int32
  FINGERPRINT_ERROR_TIMEOUT :: int32
  FINGERPRINT_ERROR_NO_SPACE :: int32
  FINGERPRINT_ERROR_CANCELED :: int32
  FINGERPRINT_ERROR_UNABLE_TO_REMOVE :: int32
  FINGERPRINT_ERROR_LOCKOUT :: int32
  FINGERPRINT_ERROR_VENDOR_BASE :: int32
  FINGERPRINT_ACQUIRED_GOOD :: int32
  FINGERPRINT_ACQUIRED_PARTIAL :: int32
  FINGERPRINT_ACQUIRED_INSUFFICIENT :: int32
  FINGERPRINT_ACQUIRED_IMAGER_DIRTY :: int32
  FINGERPRINT_ACQUIRED_TOO_SLOW :: int32
  FINGERPRINT_ACQUIRED_TOO_FAST :: int32
  FINGERPRINT_ACQUIRED_VENDOR_BASE :: int32

text \<open>
  The labels of one \<^verbatim>\<open>switch\<close> are pairwise different (the compiler rejects a
  duplicate label), which is all the translators need of the header.
\<close>

definition error_labels :: "fingerprint_h \<Rightarrow> int32 list" where
  "error_labels K =
     [FINGERPRINT_ERROR_HW_UNAVAILABLE K, FINGERPRINT_ERROR_UNABLE_TO_PROCESS K,
      FINGERPRINT_ERROR_TIMEOUT K, FINGERPRINT_ERROR_NO_SPACE K,
      FINGERPRINT_ERROR_CANCELED K, FINGERPRINT_ERROR_UNABLE_TO_REMOVE K]"

definition acquired_labels :: "fingerprint_h \<Rightarrow> int32 list" where
  "acquired_labels K =
     [FINGERPRINT_ACQUIRED_GOOD K, FINGERPRINT_ACQUIRED_PARTIAL K,
      FINGERPRINT_ACQUIRED_INSUFFICIENT K, FINGERPRINT_ACQUIRED_IMAGER_DIRTY K,
      FINGERPRINT_ACQUIRED_TOO_SLOW K, FINGERPRINT_ACQUIRED_TOO_FAST K]"

text \<open>
  An instance for running the model: the values the enumerators have in the Android
  platform's header (errors 1 to 7, acquired codes 0 to 5, both vendor bases 1000).
\<close>

definition platform_h :: fingerprint_h where
  "platform_h =
     \<lparr> FINGERPRINT_ERROR_HW_UNAVAILABLE = 1, FINGERPRINT_ERROR_UNABLE_TO_PROCESS = 2,
       FINGERPRINT_ERROR_TIMEOUT = 3, FINGERPRINT_ERROR_NO_SPACE = 4,
       FINGERPRINT_ERROR_CANCELED = 5, FINGERPRINT_ERROR_UNABLE_TO_REMOVE = 6,
       FINGERPRINT_ERROR_LOCKOUT = 7, FINGERPRINT_ERROR_VENDOR_BASE = 1000,
       FINGERPRINT_ACQUIRED_GOOD = 0, FINGERPRINT_ACQUIRED_PARTIAL = 1,
       FINGERPRINT_ACQUIRED_INSUFFICIENT = 2, FINGERPRINT_ACQUIRED_IMAGER_DIRTY = 3,
       FINGERPRINT_ACQUIRED_TOO_SLOW = 4, FINGERPRINT_ACQUIRED_TOO_FAST = 5,
       FINGERPRINT_ACQUIRED_VENDOR_BASE = 1000 \<rparr>"

subsection \<open>The AIDL vocabulary and the observable effects\<close>

text \<open>The kinds of \<^verbatim>\<open>Error\<close> and \<^verbatim>\<open>AcquiredInfo\<close> the source produces.\<close>

datatype Error =
    Error_HW_UNAVAILABLE | Error_UNABLE_TO_PROCESS | Error_TIMEOUT | Error_NO_SPACE
  | Error_CANCELED | Error_UNABLE_TO_REMOVE | Error_VENDOR

datatype AcquiredInfo =
    AcquiredInfo_GOOD | AcquiredInfo_PARTIAL | AcquiredInfo_INSUFFICIENT
  | AcquiredInfo_SENSOR_DIRTY | AcquiredInfo_TOO_SLOW | AcquiredInfo_TOO_FAST
  | AcquiredInfo_VENDOR

text \<open>A log line: the macro, its format string and the values formatted.\<close>

datatype log_arg = arg_int int | arg_Error Error | arg_AcquiredInfo AcquiredInfo

datatype log_entry =
    ALOGE string "log_arg list"
  | ALOGD string "log_arg list"
  | ALOGI string "log_arg list"
  | LOG_INFO string

subsection \<open>The translators\<close>

text \<open>
  \<^verbatim>\<open>VendorErrorFilter\<close> (lines 226 to 251). The result is the returned kind, the
  value left in \<^verbatim>\<open>*vendorCode\<close>, and the lines logged. The \<^verbatim>\<open>switch\<close> is the
  chain of its labels in source order; \<^verbatim>\<open>error - FINGERPRINT_ERROR_VENDOR_BASE\<close>
  is the subtraction of 32-bit words.
\<close>

definition VendorErrorFilter :: "fingerprint_h \<Rightarrow> int32 \<Rightarrow> Error \<times> int32 \<times> log_entry list" where
  "VendorErrorFilter K error =
     (if error = FINGERPRINT_ERROR_HW_UNAVAILABLE K then (Error_HW_UNAVAILABLE, 0, [])
      else if error = FINGERPRINT_ERROR_UNABLE_TO_PROCESS K then (Error_UNABLE_TO_PROCESS, 0, [])
      else if error = FINGERPRINT_ERROR_TIMEOUT K then (Error_TIMEOUT, 0, [])
      else if error = FINGERPRINT_ERROR_NO_SPACE K then (Error_NO_SPACE, 0, [])
      else if error = FINGERPRINT_ERROR_CANCELED K then (Error_CANCELED, 0, [])
      else if error = FINGERPRINT_ERROR_UNABLE_TO_REMOVE K then (Error_UNABLE_TO_REMOVE, 0, [])
      else if FINGERPRINT_ERROR_VENDOR_BASE K \<le>s error
        then (Error_VENDOR, error - FINGERPRINT_ERROR_VENDOR_BASE K, [])
      else (Error_UNABLE_TO_PROCESS, 0,
            [ALOGE ''Unknown error from fingerprint vendor library: %d'' [arg_int (sint error)]]))"

text \<open>\<^verbatim>\<open>VendorAcquiredFilter\<close> (lines 255 to 280), in the same way.\<close>

definition VendorAcquiredFilter ::
    "fingerprint_h \<Rightarrow> int32 \<Rightarrow> AcquiredInfo \<times> int32 \<times> log_entry list" where
  "VendorAcquiredFilter K info =
     (if info = FINGERPRINT_ACQUIRED_GOOD K then (AcquiredInfo_GOOD, 0, [])
      else if info = FINGERPRINT_ACQUIRED_PARTIAL K then (AcquiredInfo_PARTIAL, 0, [])
      else if info = FINGERPRINT_ACQUIRED_INSUFFICIENT K then (AcquiredInfo_INSUFFICIENT, 0, [])
      else if info = FINGERPRINT_ACQUIRED_IMAGER_DIRTY K then (AcquiredInfo_SENSOR_DIRTY, 0, [])
      else if info = FINGERPRINT_ACQUIRED_TOO_SLOW K then (AcquiredInfo_TOO_SLOW, 0, [])
      else if info = FINGERPRINT_ACQUIRED_TOO_FAST K then (AcquiredInfo_TOO_FAST, 0, [])
      else if FINGERPRINT_ACQUIRED_VENDOR_BASE K \<le>s info
        then (AcquiredInfo_VENDOR, info - FINGERPRINT_ACQUIRED_VENDOR_BASE K, [])
      else (AcquiredInfo_INSUFFICIENT, 0,
            [ALOGE ''Unknown acquiredmsg from fingerprint vendor library: %d'' [arg_int (sint info)]]))"

subsection \<open>Messages of the driver, calls to the client, and the trace\<close>

text \<open>
  \<^verbatim>\<open>fingerprint_msg_t\<close>: the tag \<^verbatim>\<open>msg->type\<close> with the members of the union
  that \<^verbatim>\<open>notify\<close> reads. \<^verbatim>\<open>hat\<close> is the token as the bytes of its object,
  which is how \<^verbatim>\<open>notify\<close> copies it. The last constructor stands for a tag that
  is none of the six labels of the \<^verbatim>\<open>switch\<close>.
\<close>

datatype fingerprint_msg =
    FINGERPRINT_ERROR int32
  | FINGERPRINT_ACQUIRED int32
  | FINGERPRINT_TEMPLATE_ENROLLING int32
  | FINGERPRINT_TEMPLATE_REMOVED int32
  | FINGERPRINT_AUTHENTICATED int32 "uint8 list"
  | FINGERPRINT_TEMPLATE_ENUMERATING int32
  | FINGERPRINT_MSG_OTHER int32

text \<open>The methods of \<^verbatim>\<open>ISessionCallback\<close> that the modelled code calls.\<close>

datatype callback_call =
    onError Error int32
  | onAcquired AcquiredInfo int32
  | onEnrollmentProgress int32
  | onEnrollmentsRemoved "int32 list"
  | onAuthenticationSucceeded int32 "uint8 list"
  | onAuthenticationFailed
  | onEnrollmentsEnumerated "int32 list"
  | onLockoutPermanent
  | onLockoutCleared
  | onSessionClosed

text \<open>The one entry of the legacy device that the modelled code calls.\<close>

datatype device_call = device_remove int32 int32

datatype tracker_call = LockoutTracker_reset bool

text \<open>
  Everything the session does to its collaborators is appended to a trace: a call on the
  client's callback, a call into the driver, a call on the \<^verbatim>\<open>LockoutTracker\<close>,
  a log line, and \<^verbatim>\<open>AIBinder_DeathRecipient_delete\<close>.
\<close>

datatype event =
    Callback callback_call
  | Device device_call
  | Tracker tracker_call
  | Log log_entry
  | DeathRecipient_delete

fun callbacks_of :: "event list \<Rightarrow> callback_call list" where
  "callbacks_of [] = []"
| "callbacks_of (Callback c # es) = c # callbacks_of es"
| "callbacks_of (e # es) = callbacks_of es"

fun device_calls_of :: "event list \<Rightarrow> device_call list" where
  "device_calls_of [] = []"
| "device_calls_of (Device d # es) = d # device_calls_of es"
| "device_calls_of (e # es) = device_calls_of es"


subsection \<open>The session and its environment\<close>

text \<open>
  The client and the driver are outside the program. What they answer is a function of
  the trace so far and of the call: for the client whether the returned status
  \<^verbatim>\<open>isOk()\<close>, for the driver's \<^verbatim>\<open>remove\<close> its \<^verbatim>\<open>int\<close> result.
\<close>

type_synonym ISessionCallback = "event list \<Rightarrow> callback_call \<Rightarrow> bool"

record fingerprint_device =
  remove_entry :: "event list \<Rightarrow> int32 \<Rightarrow> int32 \<Rightarrow> int32"

text \<open>
  The state: the members of the one \<^verbatim>\<open>Session\<close> object that the modelled code
  reads or writes (\<^verbatim>\<open>mSessionCallback\<close> is a \<^verbatim>\<open>shared_ptr\<close>, \<open>None\<close> when
  null), then the environment: the trace, the time in milliseconds, and for every
  detached timer thread that has not yet run its action the time at which its
  \<^verbatim>\<open>sleep_for\<close> ends.
\<close>

record world =
  mUserId :: int32
  mDevice :: fingerprint_device
  mSessionCallback :: "ISessionCallback option"
  mClosed :: bool
  mIsLockoutTimerStarted :: bool
  mIsLockoutTimerAborted :: bool
  trace :: "event list"
  clock :: int
  threads :: "int list"

text \<open>
  A call through a null pointer is a fault. Each function below is one step of the
  model, run to its end before the next step starts; \<^verbatim>\<open>resetLockout\<close> is
  two steps, since the timer's thread can run between its statements.
\<close>

datatype fault = NullDereference

text \<open>
  \<^verbatim>\<open>ndk::ScopedAStatus\<close>: \<^verbatim>\<open>ok()\<close>, which every modelled request returns, or
  a status made from an exception code (as \<^verbatim>\<open>onContextChanged\<close> returns).
\<close>

datatype ScopedAStatus = ScopedAStatus_ok | ScopedAStatus_fromExceptionCode int

text \<open>\<^verbatim>\<open>CancellationSignal(this)\<close>: the signal made for the one session.\<close>

datatype ICancellationSignal = CancellationSignal

text \<open>A pointer to the session: null, or the address of the one session of the model.\<close>

datatype session_ptr = nullptr | Session_ptr

definition emit :: "event \<Rightarrow> world \<Rightarrow> world" where
  "emit e s = s\<lparr>trace := trace s @ [e]\<rparr>"

definition emit_logs :: "log_entry list \<Rightarrow> world \<Rightarrow> world" where
  "emit_logs ls s = s\<lparr>trace := trace s @ map Log ls\<rparr>"

text \<open>\<^verbatim>\<open>mSessionCallback->m(...)\<close>: the call and whether its status is ok.\<close>

definition invoke :: "callback_call \<Rightarrow> world \<Rightarrow> fault + (bool \<times> world)" where
  "invoke c s =
     (case mSessionCallback s of
        None \<Rightarrow> Inl NullDereference
      | Some cb \<Rightarrow> Inr (cb (trace s) c, emit (Callback c) s))"

text \<open>
  The pattern of \<^verbatim>\<open>notify\<close>:
  \<^verbatim>\<open>if (!mSessionCallback->m(...).isOk()) ALOGE(failure)\<close>.
\<close>

definition invoke_checked :: "string \<Rightarrow> callback_call \<Rightarrow> world \<Rightarrow> fault + world" where
  "invoke_checked failure c s =
     (case invoke c s of
        Inl f \<Rightarrow> Inl f
      | Inr (isOk, s1) \<Rightarrow> Inr (if \<not> isOk then emit (Log (ALOGE failure [])) s1 else s1))"

subsection \<open>Requests\<close>

text \<open>
  \<^verbatim>\<open>detectInteraction\<close> (lines 90 to 96): the callback is called without a test
  for null.
\<close>

definition detectInteraction ::
    "world \<Rightarrow> fault + (ScopedAStatus \<times> ICancellationSignal \<times> world)" where
  "detectInteraction s =
     (let s1 = emit (Log (ALOGD ''Detect interaction is not supported'' [])) s in
      case invoke (onError Error_UNABLE_TO_PROCESS 0) s1 of
        Inl f \<Rightarrow> Inl f
      | Inr (isOk, s2) \<Rightarrow> Inr (ScopedAStatus_ok, CancellationSignal, s2))"

text \<open>
  The loop of \<^verbatim>\<open>removeEnrollments\<close> (lines 113 to 117), one round for each
  element of the vector, and the function (lines 110 to 120).
\<close>

fun remove_loop :: "int32 list \<Rightarrow> world \<Rightarrow> world" where
  "remove_loop [] s = s"
| "remove_loop (enrollment # rest) s =
     (let error = remove_entry (mDevice s) (trace s) (mUserId s) enrollment;
          s1 = emit (Device (device_remove (mUserId s) enrollment)) s;
          s2 = (if error \<noteq> 0
                then emit (Log (ALOGE ''remove() failed: %d'' [arg_int (sint error)])) s1
                else s1)
      in remove_loop rest s2)"

definition removeEnrollments :: "int32 list \<Rightarrow> world \<Rightarrow> ScopedAStatus \<times> world" where
  "removeEnrollments enrollmentIds s =
     (let s1 = emit (Log (ALOGI ''removeEnrollments, size: %d''
                            [arg_int (int (length enrollmentIds))])) s
      in (ScopedAStatus_ok, remove_loop enrollmentIds s1))"

text \<open>\<^verbatim>\<open>clearLockout\<close> (lines 197 to 200).\<close>

definition clearLockout :: "bool \<Rightarrow> world \<Rightarrow> fault + world" where
  "clearLockout clearAttemptCounter s =
     (let s1 = emit (Tracker (LockoutTracker_reset clearAttemptCounter)) s in
      case invoke onLockoutCleared s1 of
        Inl f \<Rightarrow> Inl f
      | Inr (isOk, s2) \<Rightarrow> Inr s2)"

text \<open>
  \<^verbatim>\<open>resetLockout\<close> (lines 132 to 137). The token is not looked at (its parameter
  has no name in the source), so its type is left open. The function holds no lock and
  the timer's thread runs beside it, so its two statements are a step each:
  \<open>resetLockout_clear\<close> is line 133, \<open>resetLockout_abort\<close> is line 134 with the
  return. \<open>resetLockout\<close> is the run of both with no other thread in between.
\<close>

definition resetLockout_clear :: "world \<Rightarrow> fault + world" where
  "resetLockout_clear s = clearLockout True s"

definition resetLockout_abort :: "world \<Rightarrow> ScopedAStatus \<times> world" where
  "resetLockout_abort s = (ScopedAStatus_ok, s\<lparr>mIsLockoutTimerAborted := True\<rparr>)"

definition resetLockout :: "'hat \<Rightarrow> world \<Rightarrow> fault + (ScopedAStatus \<times> world)" where
  "resetLockout hat s =
     (case resetLockout_clear s of
        Inl f \<Rightarrow> Inl f
      | Inr s1 \<Rightarrow> Inr (resetLockout_abort s1))"

text \<open>\<^verbatim>\<open>close\<close> (lines 139 to 144).\<close>

definition close :: "world \<Rightarrow> fault + (ScopedAStatus \<times> world)" where
  "close s =
     (let s1 = s\<lparr>mClosed := True\<rparr> in
      case invoke onSessionClosed s1 of
        Inl f \<Rightarrow> Inl f
      | Inr (isOk, s2) \<Rightarrow> Inr (ScopedAStatus_ok, emit DeathRecipient_delete s2))"

text \<open>
  Modelled from the spec: \<^verbatim>\<open>Session.h\<close>, which defines \<^verbatim>\<open>isClosed\<close>, is not
  among the sources. The spec's session has one flag \<open>closed\<close>, set by \<open>close\<close>;
  \<^verbatim>\<open>isClosed\<close> reads it.
\<close>

definition isClosed :: "world \<Rightarrow> bool" where
  "isClosed s = mClosed s"

text \<open>\<^verbatim>\<open>onClientDeath\<close> (lines 22 to 28); the cookie is the pointer to the session.\<close>

definition onClientDeath :: "session_ptr \<Rightarrow> world \<Rightarrow> fault + world" where
  "onClientDeath cookie s =
     (let s1 = emit (Log (LOG_INFO ''FingerprintService has died'')) s in
      if cookie \<noteq> nullptr \<and> \<not> isClosed s1
      then (case close s1 of Inl f \<Rightarrow> Inl f | Inr (st, s2) \<Rightarrow> Inr s2)
      else Inr s1)"

subsection \<open>The lockout timer\<close>

text \<open>
  \<^verbatim>\<open>startLockoutTimer\<close> (lines 202 to 212): the detached thread is a new entry
  of \<open>threads\<close>, its sleep ending \<open>timeout\<close> milliseconds from now.
\<close>

definition startLockoutTimer :: "int \<Rightarrow> world \<Rightarrow> world" where
  "startLockoutTimer timeout s =
     (let s1 = s\<lparr>mIsLockoutTimerAborted := False\<rparr>;
          s2 = s1\<lparr>threads := threads s1 @ [clock s1 + timeout]\<rparr>
      in s2\<lparr>mIsLockoutTimerStarted := True\<rparr>)"

text \<open>\<^verbatim>\<open>lockoutTimerExpired\<close> (lines 214 to 220).\<close>

definition lockoutTimerExpired :: "world \<Rightarrow> fault + world" where
  "lockoutTimerExpired s =
     (case (if \<not> mIsLockoutTimerAborted s then clearLockout False s else Inr s) of
        Inl f \<Rightarrow> Inl f
      | Inr s1 \<Rightarrow> Inr (s1\<lparr>mIsLockoutTimerStarted := False, mIsLockoutTimerAborted := False\<rparr>))"

text \<open>
  Time passes, and a sleeping thread whose time has come runs its action, once:
  \<open>thread_run i\<close> is \<open>None\<close> while thread \<open>i\<close> does not exist or still sleeps.
\<close>

definition tick :: "nat \<Rightarrow> world \<Rightarrow> world" where
  "tick d s = s\<lparr>clock := clock s + int d\<rparr>"

definition thread_run :: "nat \<Rightarrow> world \<Rightarrow> (fault + world) option" where
  "thread_run i s =
     (if i < length (threads s) \<and> threads s ! i \<le> clock s
      then Some (lockoutTimerExpired (s\<lparr>threads := take i (threads s) @ drop (Suc i) (threads s)\<rparr>))
      else None)"

subsection \<open>The event dispatcher\<close>

text \<open>
  \<^verbatim>\<open>notify\<close> (lines 282 to 363). \<open>sInstance\<close> is the value of the static pointer.
  Line 284 reads \<^verbatim>\<open>thisPtr->mSessionCallbackMutex\<close> before line 285 compares
  \<^verbatim>\<open>thisPtr\<close> with null, so a null \<^verbatim>\<open>sInstance\<close> is a fault. The function
  reads no other member than \<^verbatim>\<open>mSessionCallback\<close> (and \<^verbatim>\<open>mDevice\<close>, for a
  value it does not use).
\<close>

definition notify :: "fingerprint_h \<Rightarrow> session_ptr \<Rightarrow> fingerprint_msg \<Rightarrow> world \<Rightarrow> fault + world" where
  "notify K sInstance msg s =
     (if sInstance = nullptr then Inl NullDereference
      else if mSessionCallback s = None
      then Inr (emit (Log (ALOGE
              ''Receiving callbacks before the session callback is registered.'' [])) s)
      else
       (case msg of
          FINGERPRINT_ERROR error \<Rightarrow>
            if FINGERPRINT_ERROR_LOCKOUT K = error
            then invoke_checked ''failed to invoke fingerprint onLockoutPermanent callback''
                   onLockoutPermanent
                   (emit (Log (ALOGD ''onLockoutPermanent()'' [])) s)
            else
              (case VendorErrorFilter K error of
                 (result, vendorCode, logged) \<Rightarrow>
                   invoke_checked ''failed to invoke fingerprint onError callback''
                     (onError result vendorCode)
                     (emit (Log (ALOGD ''onError(%d)'' [arg_Error result]))
                        (emit_logs logged s)))
        | FINGERPRINT_ACQUIRED acquired_info \<Rightarrow>
            (case VendorAcquiredFilter K acquired_info of
               (result, vendorCode, logged) \<Rightarrow>
                 invoke_checked ''failed to invoke fingerprint onAcquired callback''
                   (onAcquired result vendorCode)
                   (emit (Log (ALOGD ''onAcquired(%d)'' [arg_AcquiredInfo result]))
                      (emit_logs logged s)))
        | FINGERPRINT_TEMPLATE_ENROLLING samples_remaining \<Rightarrow>
            invoke_checked ''failed to invoke fingerprint onEnrollmentProgress callback''
              (onEnrollmentProgress samples_remaining)
              (emit (Log (ALOGD ''onEnrollmentProgress(rem=%d)''
                            [arg_int (sint samples_remaining)])) s)
        | FINGERPRINT_TEMPLATE_REMOVED fid \<Rightarrow>
            invoke_checked ''failed to invoke fingerprint onRemoved callback''
              (onEnrollmentsRemoved [fid])
              (emit (Log (ALOGD ''onEnrollmentsRemoved(fid=%d)'' [arg_int (sint fid)])) s)
        | FINGERPRINT_AUTHENTICATED fid hat \<Rightarrow>
            if fid \<noteq> 0
            then invoke_checked
                   ''failed to invoke fingerprint onAuthenticationSucceeded callback''
                   (onAuthenticationSucceeded fid hat)
                   (emit (Log (ALOGD ''onAuthenticationSucceeded(fid=%d)''
                                 [arg_int (sint fid)])) s)
            else invoke_checked
                   ''failed to invoke fingerprint onAuthenticationFailed callback''
                   onAuthenticationFailed
                   (emit (Log (ALOGD ''onAuthenticationFailed()'' [])) s)
        | FINGERPRINT_TEMPLATE_ENUMERATING fid \<Rightarrow>
            invoke_checked ''failed to invoke fingerprint onEnrollmentsEnumerated callback''
              (onEnrollmentsEnumerated [fid])
              (emit (Log (ALOGD ''onEnrollmentsEnumerated(fid=%d)'' [arg_int (sint fid)])) s)
        | FINGERPRINT_MSG_OTHER t \<Rightarrow> Inr s))"

subsection \<open>Concrete sessions\<close>

text \<open>
  A client whose calls all succeed, a driver whose \<^verbatim>\<open>remove\<close> fails for finger 2
  only, and a session just opened for user 10 over them.
\<close>

definition always_ok :: ISessionCallback where
  "always_ok tr c = True"

definition remove_fails_on_2 :: "event list \<Rightarrow> int32 \<Rightarrow> int32 \<Rightarrow> int32" where
  "remove_fails_on_2 tr gid fid = (if fid = 2 then - 1 else 0)"

definition fresh_session :: world where
  "fresh_session =
     \<lparr> mUserId = 10, mDevice = \<lparr> remove_entry = remove_fails_on_2 \<rparr>,
       mSessionCallback = Some always_ok, mClosed = False,
       mIsLockoutTimerStarted = False, mIsLockoutTimerAborted = False,
       trace = [], clock = 0, threads = [] \<rparr>"

text \<open>The same session after one \<^verbatim>\<open>close\<close>.\<close>

definition closed_session :: world where
  "closed_session =
     fresh_session\<lparr>mClosed := True, trace := [Callback onSessionClosed, DeathRecipient_delete]\<rparr>"

section \<open>Properties\<close>

subsection \<open>Auxiliary facts\<close>

lemma sint_sub_no_overflow:
  fixes a b :: int32
  assumes "0 \<le>s b" and "b \<le>s a"
  shows "sint (a - b) = sint a - sint b"
proof -
  have lo: "0 \<le> sint b" and le: "sint b \<le> sint a"
    using assms by (simp_all add: word_sle_eq)
  have hi: "sint a < 2 ^ 31"
    using sint_lt [of a] by simp
  have "sint (a - b) = signed_take_bit 31 (sint a - sint b)"
    by (simp add: sint_word_ariths)
  also have "\<dots> = sint a - sint b"
    using lo le hi by (intro signed_take_bit_int_eq_self) auto
  finally show ?thesis .
qed

lemma callbacks_of_append: "callbacks_of (xs @ ys) = callbacks_of xs @ callbacks_of ys"
  by (induction xs rule: callbacks_of.induct) simp_all

lemma device_calls_of_append:
  "device_calls_of (xs @ ys) = device_calls_of xs @ device_calls_of ys"
  by (induction xs rule: device_calls_of.induct) simp_all


lemma invoke_registered:
  "mSessionCallback s = Some cb \<Longrightarrow> invoke c s = Inr (cb (trace s) c, emit (Callback c) s)"
  by (simp add: invoke_def)

lemma invoke_checked_registered:
  "mSessionCallback s = Some cb \<Longrightarrow>
   invoke_checked failure c s =
     Inr (if cb (trace s) c then emit (Callback c) s
          else emit (Log (ALOGE failure [])) (emit (Callback c) s))"
  by (simp add: invoke_checked_def invoke_def)

lemma emit_fields:
  "trace (emit e s) = trace s @ [e]"
  "mSessionCallback (emit e s) = mSessionCallback s"
  "mClosed (emit e s) = mClosed s"
  "mIsLockoutTimerAborted (emit e s) = mIsLockoutTimerAborted s"
  "mIsLockoutTimerStarted (emit e s) = mIsLockoutTimerStarted s"
  "mUserId (emit e s) = mUserId s"
  "mDevice (emit e s) = mDevice s"
  "clock (emit e s) = clock s"
  "threads (emit e s) = threads s"
  by (simp_all add: emit_def)

lemma emit_logs_fields:
  "trace (emit_logs ls s) = trace s @ map Log ls"
  "mSessionCallback (emit_logs ls s) = mSessionCallback s"
  by (simp_all add: emit_logs_def)

lemma callbacks_of_logs: "callbacks_of (map Log ls) = []"
  by (induction ls) simp_all

lemma emit_closed: "emit e (s\<lparr>mClosed := b\<rparr>) = (emit e s)\<lparr>mClosed := b\<rparr>"
  by (simp add: emit_def)

lemma emit_logs_closed:
  "emit_logs ls (s\<lparr>mClosed := b\<rparr>) = (emit_logs ls s)\<lparr>mClosed := b\<rparr>"
  by (simp add: emit_logs_def)

lemma invoke_checked_closed:
  "invoke_checked failure c (s\<lparr>mClosed := b\<rparr>) =
     (case invoke_checked failure c s of
        Inl f \<Rightarrow> Inl f
      | Inr s' \<Rightarrow> Inr (s'\<lparr>mClosed := b\<rparr>))"
  by (simp add: invoke_checked_def invoke_def emit_def split: option.splits)

text \<open>Without a registered callback \<open>notify\<close> only logs.\<close>

lemma notify_unregistered:
  "mSessionCallback s = None \<Longrightarrow>
   notify K Session_ptr msg s =
     Inr (emit (Log (ALOGE
            ''Receiving callbacks before the session callback is registered.'' [])) s)"
  by (simp add: notify_def)

text \<open>\<open>notify\<close> changes nothing of the state but the trace.\<close>

lemma invoke_checked_frame:
  "invoke_checked failure c s = Inr s' \<Longrightarrow> s' = s\<lparr>trace := trace s'\<rparr>"
  by (auto simp: invoke_checked_def invoke_def emit_def split: option.splits if_splits)

lemma notify_frame:
  "notify K sInstance msg s = Inr s' \<Longrightarrow> s' = s\<lparr>trace := trace s'\<rparr>"
  by (cases msg)
     (auto simp: notify_def emit_def emit_logs_def
           split: if_splits prod.splits dest!: invoke_checked_frame)

lemma close_registered:
  "mSessionCallback s = Some cb \<Longrightarrow>
   close s =
     Inr (ScopedAStatus_ok,
          s\<lparr>mClosed := True,
            trace := trace s @ [Callback onSessionClosed, DeathRecipient_delete]\<rparr>)"
  by (simp add: close_def invoke_def emit_def)

text \<open>\<open>closed_session\<close> is what \<open>close\<close> makes of \<open>fresh_session\<close>.\<close>

lemma close_fresh_session: "close fresh_session = Inr (ScopedAStatus_ok, closed_session)"
  by (simp add: close_def invoke_def emit_def fresh_session_def closed_session_def)

text \<open>The death notification of a closed session does not close it again.\<close>

lemma onClientDeath_after_close:
  "mClosed s \<Longrightarrow>
   onClientDeath cookie s = Inr (emit (Log (LOG_INFO ''FingerprintService has died'')) s)"
  by (simp add: onClientDeath_def isClosed_def emit_fields)

lemma clearLockout_registered:
  "mSessionCallback s = Some cb \<Longrightarrow>
   clearLockout b s =
     Inr (s\<lparr>trace := trace s @ [Tracker (LockoutTracker_reset b), Callback onLockoutCleared]\<rparr>)"
  by (simp add: clearLockout_def invoke_def emit_def)

lemma lockoutTimerExpired_aborted:
  "mIsLockoutTimerAborted s \<Longrightarrow>
   lockoutTimerExpired s =
     Inr (s\<lparr>mIsLockoutTimerStarted := False, mIsLockoutTimerAborted := False\<rparr>)"
  by (simp add: lockoutTimerExpired_def)


text \<open>
  Whatever else has happened: a thread whose sleep has ended and that finds the abort
  flag set runs its action without adding to the trace.
\<close>

lemma thread_run_aborted:
  assumes "mIsLockoutTimerAborted s" and "i < length (threads s)" and "threads s ! i \<le> clock s"
  shows "\<exists>s'. thread_run i s = Some (Inr s') \<and> trace s' = trace s
              \<and> \<not> mIsLockoutTimerAborted s' \<and> \<not> mIsLockoutTimerStarted s'"
  using assms by (simp add: thread_run_def lockoutTimerExpired_aborted)


text \<open>
  The scenario of the specification: ids 1, 2 and 3, where the driver fails for 2. All
  three calls are made, the failure is one log line, the status is ok.
\<close>

lemma removeEnrollments_example:
  "removeEnrollments [1, 2, 3] fresh_session =
     (ScopedAStatus_ok,
      fresh_session\<lparr>trace :=
        [Log (ALOGI ''removeEnrollments, size: %d'' [arg_int 3]),
         Device (device_remove 10 1),
         Device (device_remove 10 2),
         Log (ALOGE ''remove() failed: %d'' [arg_int (- 1)]),
         Device (device_remove 10 3)]\<rparr>)"
  by (simp add: removeEnrollments_def emit_def fresh_session_def remove_fails_on_2_def Let_def)

subsection \<open>The error translator\<close>

text \<open>
  C1. For each of the six legacy error codes of the table, \<open>VendorErrorFilter\<close> returns
  the kind of the same name and leaves 0 in the vendor code. A code that is none of the
  six and is at least \<open>FINGERPRINT_ERROR_VENDOR_BASE\<close> (as signed integers) gives
  \<open>VENDOR\<close> with the vendor code \<open>error - FINGERPRINT_ERROR_VENDOR_BASE\<close>; with a base
  that is not negative this difference does not wrap, so it is the difference of the two
  integers. Any other code gives \<open>UNABLE_TO_PROCESS\<close> with vendor code 0, and one
  error line in the log.
\<close>

theorem VendorErrorFilter_table:
  assumes "distinct (error_labels K)"
  shows "VendorErrorFilter K (FINGERPRINT_ERROR_HW_UNAVAILABLE K) = (Error_HW_UNAVAILABLE, 0, [])
       \<and> VendorErrorFilter K (FINGERPRINT_ERROR_UNABLE_TO_PROCESS K) = (Error_UNABLE_TO_PROCESS, 0, [])
       \<and> VendorErrorFilter K (FINGERPRINT_ERROR_TIMEOUT K) = (Error_TIMEOUT, 0, [])
       \<and> VendorErrorFilter K (FINGERPRINT_ERROR_NO_SPACE K) = (Error_NO_SPACE, 0, [])
       \<and> VendorErrorFilter K (FINGERPRINT_ERROR_CANCELED K) = (Error_CANCELED, 0, [])
       \<and> VendorErrorFilter K (FINGERPRINT_ERROR_UNABLE_TO_REMOVE K) = (Error_UNABLE_TO_REMOVE, 0, [])
       \<and> (error \<notin> set (error_labels K) \<and> FINGERPRINT_ERROR_VENDOR_BASE K \<le>s error \<longrightarrow>
            VendorErrorFilter K error =
              (Error_VENDOR, error - FINGERPRINT_ERROR_VENDOR_BASE K, [])
            \<and> (0 \<le>s FINGERPRINT_ERROR_VENDOR_BASE K \<longrightarrow>
                 sint (fst (snd (VendorErrorFilter K error)))
                   = sint error - sint (FINGERPRINT_ERROR_VENDOR_BASE K)))
       \<and> (error \<notin> set (error_labels K) \<and> \<not> FINGERPRINT_ERROR_VENDOR_BASE K \<le>s error \<longrightarrow>
            VendorErrorFilter K error =
              (Error_UNABLE_TO_PROCESS, 0,
               [ALOGE ''Unknown error from fingerprint vendor library: %d''
                  [arg_int (sint error)]]))"
  using assms
  by (auto simp: VendorErrorFilter_def error_labels_def sint_sub_no_overflow)

theorem VendorErrorFilter_table_witness:
  "distinct (error_labels platform_h)
   \<and> VendorErrorFilter platform_h 5 = (Error_CANCELED, 0, [])
   \<and> (1003 \<notin> set (error_labels platform_h)
        \<and> FINGERPRINT_ERROR_VENDOR_BASE platform_h \<le>s 1003
        \<and> 0 \<le>s FINGERPRINT_ERROR_VENDOR_BASE platform_h)
   \<and> VendorErrorFilter platform_h 1003 = (Error_VENDOR, 3, [])
   \<and> (7 \<notin> set (error_labels platform_h) \<and> \<not> FINGERPRINT_ERROR_VENDOR_BASE platform_h \<le>s 7)
   \<and> VendorErrorFilter platform_h 7 =
       (Error_UNABLE_TO_PROCESS, 0,
        [ALOGE ''Unknown error from fingerprint vendor library: %d'' [arg_int 7]])"
proof -
  have d: "distinct (error_labels platform_h)"
    by (simp add: error_labels_def platform_h_def)
  have v: "1003 \<notin> set (error_labels platform_h)
           \<and> FINGERPRINT_ERROR_VENDOR_BASE platform_h \<le>s 1003
           \<and> 0 \<le>s FINGERPRINT_ERROR_VENDOR_BASE platform_h"
    by (simp add: error_labels_def platform_h_def word_sle_eq)
  have u: "7 \<notin> set (error_labels platform_h) \<and> \<not> FINGERPRINT_ERROR_VENDOR_BASE platform_h \<le>s 7"
    by (simp add: error_labels_def platform_h_def word_sle_eq)
  have c: "FINGERPRINT_ERROR_CANCELED platform_h = 5"
          "FINGERPRINT_ERROR_VENDOR_BASE platform_h = 1000"
    by (simp_all add: platform_h_def)
  from VendorErrorFilter_table [OF d, of 1003] VendorErrorFilter_table [OF d, of 7] d v u c
  show ?thesis by simp
qed

subsection \<open>The acquired-info translator\<close>

text \<open>
  C8. For each of the six legacy acquired codes of the table, \<open>VendorAcquiredFilter\<close>
  returns the kind of the same name (\<open>SENSOR_DIRTY\<close> for \<open>IMAGER_DIRTY\<close>) with vendor
  code 0. A code that is none of the six and is at least
  \<open>FINGERPRINT_ACQUIRED_VENDOR_BASE\<close> gives \<open>VENDOR\<close> with the vendor code
  \<open>info - FINGERPRINT_ACQUIRED_VENDOR_BASE\<close>, the difference of the two integers when the
  base is not negative. Any other code gives \<open>INSUFFICIENT\<close> with vendor code 0, and
  one error line in the log.
\<close>

theorem VendorAcquiredFilter_table:
  assumes "distinct (acquired_labels K)"
  shows "VendorAcquiredFilter K (FINGERPRINT_ACQUIRED_GOOD K) = (AcquiredInfo_GOOD, 0, [])
       \<and> VendorAcquiredFilter K (FINGERPRINT_ACQUIRED_PARTIAL K) = (AcquiredInfo_PARTIAL, 0, [])
       \<and> VendorAcquiredFilter K (FINGERPRINT_ACQUIRED_INSUFFICIENT K) = (AcquiredInfo_INSUFFICIENT, 0, [])
       \<and> VendorAcquiredFilter K (FINGERPRINT_ACQUIRED_IMAGER_DIRTY K) = (AcquiredInfo_SENSOR_DIRTY, 0, [])
       \<and> VendorAcquiredFilter K (FINGERPRINT_ACQUIRED_TOO_SLOW K) = (AcquiredInfo_TOO_SLOW, 0, [])
       \<and> VendorAcquiredFilter K (FINGERPRINT_ACQUIRED_TOO_FAST K) = (AcquiredInfo_TOO_FAST, 0, [])
       \<and> (info \<notin> set (acquired_labels K) \<and> FINGERPRINT_ACQUIRED_VENDOR_BASE K \<le>s info \<longrightarrow>
            VendorAcquiredFilter K info =
              (AcquiredInfo_VENDOR, info - FINGERPRINT_ACQUIRED_VENDOR_BASE K, [])
            \<and> (0 \<le>s FINGERPRINT_ACQUIRED_VENDOR_BASE K \<longrightarrow>
                 sint (fst (snd (VendorAcquiredFilter K info)))
                   = sint info - sint (FINGERPRINT_ACQUIRED_VENDOR_BASE K)))
       \<and> (info \<notin> set (acquired_labels K) \<and> \<not> FINGERPRINT_ACQUIRED_VENDOR_BASE K \<le>s info \<longrightarrow>
            VendorAcquiredFilter K info =
              (AcquiredInfo_INSUFFICIENT, 0,
               [ALOGE ''Unknown acquiredmsg from fingerprint vendor library: %d''
                  [arg_int (sint info)]]))"
  using assms
  by (auto simp: VendorAcquiredFilter_def acquired_labels_def sint_sub_no_overflow)

theorem VendorAcquiredFilter_table_witness:
  "distinct (acquired_labels platform_h)
   \<and> VendorAcquiredFilter platform_h 3 = (AcquiredInfo_SENSOR_DIRTY, 0, [])
   \<and> (1002 \<notin> set (acquired_labels platform_h)
        \<and> FINGERPRINT_ACQUIRED_VENDOR_BASE platform_h \<le>s 1002
        \<and> 0 \<le>s FINGERPRINT_ACQUIRED_VENDOR_BASE platform_h)
   \<and> VendorAcquiredFilter platform_h 1002 = (AcquiredInfo_VENDOR, 2, [])
   \<and> (6 \<notin> set (acquired_labels platform_h) \<and> \<not> FINGERPRINT_ACQUIRED_VENDOR_BASE platform_h \<le>s 6)
   \<and> VendorAcquiredFilter platform_h 6 =
       (AcquiredInfo_INSUFFICIENT, 0,
        [ALOGE ''Unknown acquiredmsg from fingerprint vendor library: %d'' [arg_int 6]])"
proof -
  have d: "distinct (acquired_labels platform_h)"
    by (simp add: acquired_labels_def platform_h_def)
  have v: "1002 \<notin> set (acquired_labels platform_h)
           \<and> FINGERPRINT_ACQUIRED_VENDOR_BASE platform_h \<le>s 1002
           \<and> 0 \<le>s FINGERPRINT_ACQUIRED_VENDOR_BASE platform_h"
    by (simp add: acquired_labels_def platform_h_def word_sle_eq)
  have u: "6 \<notin> set (acquired_labels platform_h) \<and> \<not> FINGERPRINT_ACQUIRED_VENDOR_BASE platform_h \<le>s 6"
    by (simp add: acquired_labels_def platform_h_def word_sle_eq)
  have c: "FINGERPRINT_ACQUIRED_IMAGER_DIRTY platform_h = 3"
          "FINGERPRINT_ACQUIRED_VENDOR_BASE platform_h = 1000"
    by (simp_all add: platform_h_def)
  from VendorAcquiredFilter_table [OF d, of 1002] VendorAcquiredFilter_table [OF d, of 6] d v u c
  show ?thesis by simp
qed

subsection \<open>The event dispatcher\<close>

text \<open>
  C2, as the specification states it: a notification that arrives when the session is
  closed invokes no callback of the client. It fails. \<open>closed_session\<close> has its flag
  set, and an enrolment-progress message delivered to it calls
  \<open>onEnrollmentProgress\<close>.
\<close>

theorem notify_after_close_counterexample:
  "mClosed closed_session
   \<and> notify platform_h Session_ptr (FINGERPRINT_TEMPLATE_ENROLLING 0) closed_session =
       Inr (closed_session\<lparr>trace :=
              [Callback onSessionClosed, DeathRecipient_delete,
               Log (ALOGD ''onEnrollmentProgress(rem=%d)'' [arg_int 0]),
               Callback (onEnrollmentProgress 0)]\<rparr>)"
  by (simp add: notify_def invoke_checked_def invoke_def emit_def fresh_session_def
        closed_session_def always_ok_def)

text \<open>
  C2, amended. \<open>notify\<close> does not read the closed flag: run on a session whose flag
  has any value \<open>b\<close>, it does what it does on the session otherwise, and leaves the
  flag as it is. So on every session with a registered callback, closed or not, a
  notification reaches the client: \<open>notify\<close> adds exactly the call that belongs to
  the kind of the message (none for a message whose type is not one of the six). Without
  a registered callback it adds no call on the client.
\<close>

theorem notify_reaches_client_after_close:
  "notify K sInstance msg (s\<lparr>mClosed := b\<rparr>) =
     (case notify K sInstance msg s of
        Inl f \<Rightarrow> Inl f
      | Inr s' \<Rightarrow> Inr (s'\<lparr>mClosed := b\<rparr>))
   \<and> (mSessionCallback s \<noteq> None \<longrightarrow>
        (\<exists>s'. notify K Session_ptr msg s = Inr s'
           \<and> mClosed s' = mClosed s
           \<and> callbacks_of (trace s') = callbacks_of (trace s) @
               (case msg of
                  FINGERPRINT_ERROR error \<Rightarrow>
                    if FINGERPRINT_ERROR_LOCKOUT K = error then [onLockoutPermanent]
                    else [onError (fst (VendorErrorFilter K error))
                                  (fst (snd (VendorErrorFilter K error)))]
                | FINGERPRINT_ACQUIRED info \<Rightarrow>
                    [onAcquired (fst (VendorAcquiredFilter K info))
                                (fst (snd (VendorAcquiredFilter K info)))]
                | FINGERPRINT_TEMPLATE_ENROLLING samples_remaining \<Rightarrow>
                    [onEnrollmentProgress samples_remaining]
                | FINGERPRINT_TEMPLATE_REMOVED fid \<Rightarrow> [onEnrollmentsRemoved [fid]]
                | FINGERPRINT_AUTHENTICATED fid hat \<Rightarrow>
                    if fid \<noteq> 0 then [onAuthenticationSucceeded fid hat]
                    else [onAuthenticationFailed]
                | FINGERPRINT_TEMPLATE_ENUMERATING fid \<Rightarrow> [onEnrollmentsEnumerated [fid]]
                | FINGERPRINT_MSG_OTHER t \<Rightarrow> [])))
   \<and> (mSessionCallback s = None \<longrightarrow>
        (\<exists>s'. notify K Session_ptr msg s = Inr s'
              \<and> callbacks_of (trace s') = callbacks_of (trace s)))"
proof (intro conjI impI)
  show "notify K sInstance msg (s\<lparr>mClosed := b\<rparr>) =
     (case notify K sInstance msg s of
        Inl f \<Rightarrow> Inl f
      | Inr s' \<Rightarrow> Inr (s'\<lparr>mClosed := b\<rparr>))"
    by (simp add: notify_def emit_closed emit_logs_closed invoke_checked_closed
        split: fingerprint_msg.splits prod.splits)
next
  assume "mSessionCallback s \<noteq> None"
  then obtain cb where cb: "mSessionCallback s = Some cb" by auto
  have l: "mSessionCallback (emit_logs ls s) = Some cb" for ls
    using cb by (simp add: emit_logs_def)
  have c: "mClosed (emit_logs ls s) = mClosed s" for ls
    by (simp add: emit_logs_def)
  show "\<exists>s'. notify K Session_ptr msg s = Inr s'
           \<and> mClosed s' = mClosed s
           \<and> callbacks_of (trace s') = callbacks_of (trace s) @
               (case msg of
                  FINGERPRINT_ERROR error \<Rightarrow>
                    if FINGERPRINT_ERROR_LOCKOUT K = error then [onLockoutPermanent]
                    else [onError (fst (VendorErrorFilter K error))
                                  (fst (snd (VendorErrorFilter K error)))]
                | FINGERPRINT_ACQUIRED info \<Rightarrow>
                    [onAcquired (fst (VendorAcquiredFilter K info))
                                (fst (snd (VendorAcquiredFilter K info)))]
                | FINGERPRINT_TEMPLATE_ENROLLING samples_remaining \<Rightarrow>
                    [onEnrollmentProgress samples_remaining]
                | FINGERPRINT_TEMPLATE_REMOVED fid \<Rightarrow> [onEnrollmentsRemoved [fid]]
                | FINGERPRINT_AUTHENTICATED fid hat \<Rightarrow>
                    if fid \<noteq> 0 then [onAuthenticationSucceeded fid hat]
                    else [onAuthenticationFailed]
                | FINGERPRINT_TEMPLATE_ENUMERATING fid \<Rightarrow> [onEnrollmentsEnumerated [fid]]
                | FINGERPRINT_MSG_OTHER t \<Rightarrow> [])"
    using cb
    by (cases msg)
       (simp_all add: notify_def invoke_checked_registered l c emit_fields emit_logs_fields
          callbacks_of_append callbacks_of_logs split: prod.splits)
next
  assume "mSessionCallback s = None"
  then show "\<exists>s'. notify K Session_ptr msg s = Inr s'
              \<and> callbacks_of (trace s') = callbacks_of (trace s)"
    by (simp add: notify_unregistered emit_fields callbacks_of_append)
qed

theorem notify_reaches_client_after_close_witness:
  "mClosed closed_session
   \<and> mSessionCallback closed_session \<noteq> None
   \<and> (\<exists>s'. notify platform_h Session_ptr (FINGERPRINT_TEMPLATE_ENROLLING 0) closed_session = Inr s'
          \<and> mClosed s'
          \<and> callbacks_of (trace s') = [onSessionClosed, onEnrollmentProgress 0])
   \<and> mSessionCallback (fresh_session\<lparr>mSessionCallback := None\<rparr>) = None
   \<and> (\<exists>s'. notify platform_h Session_ptr (FINGERPRINT_TEMPLATE_ENROLLING 0)
              (fresh_session\<lparr>mSessionCallback := None\<rparr>) = Inr s'
          \<and> callbacks_of (trace s') = [])"
proof -
  have r: "mSessionCallback closed_session \<noteq> None" "mClosed closed_session"
          "callbacks_of (trace closed_session) = [onSessionClosed]"
    by (simp_all add: closed_session_def fresh_session_def)
  have n: "mSessionCallback (fresh_session\<lparr>mSessionCallback := None\<rparr>) = None"
          "callbacks_of (trace (fresh_session\<lparr>mSessionCallback := None\<rparr>)) = []"
    by (simp_all add: fresh_session_def)
  from notify_reaches_client_after_close [where K = platform_h and s = closed_session
         and msg = "FINGERPRINT_TEMPLATE_ENROLLING 0"]
       notify_reaches_client_after_close [where K = platform_h
         and s = "fresh_session\<lparr>mSessionCallback := None\<rparr>"
         and msg = "FINGERPRINT_TEMPLATE_ENROLLING 0"]
  show ?thesis using r n by simp
qed

text \<open>
  C5. On a session with a registered callback, an error message whose code is
  \<open>FINGERPRINT_ERROR_LOCKOUT\<close> makes \<open>notify\<close> call \<open>onLockoutPermanent\<close>, and that
  is the only call on the client: \<open>onError\<close> is not called.
\<close>

theorem notify_lockout_permanent:
  assumes "mSessionCallback s = Some cb"
  shows "\<exists>s'. notify K Session_ptr (FINGERPRINT_ERROR (FINGERPRINT_ERROR_LOCKOUT K)) s = Inr s'
           \<and> callbacks_of (trace s') = callbacks_of (trace s) @ [onLockoutPermanent]"
  using assms
  by (simp add: notify_def invoke_checked_registered emit_fields callbacks_of_append)

theorem notify_lockout_permanent_witness:
  "mSessionCallback fresh_session = Some always_ok
   \<and> notify platform_h Session_ptr (FINGERPRINT_ERROR 7) fresh_session =
       Inr (fresh_session\<lparr>trace := [Log (ALOGD ''onLockoutPermanent()'' []),
                                     Callback onLockoutPermanent]\<rparr>)"
proof -
  have r: "mSessionCallback fresh_session = Some always_ok"
    by (simp add: fresh_session_def)
  have k: "FINGERPRINT_ERROR_LOCKOUT platform_h = 7"
    by (simp add: platform_h_def)
  have e: "notify platform_h Session_ptr (FINGERPRINT_ERROR 7) fresh_session =
       Inr (fresh_session\<lparr>trace := [Log (ALOGD ''onLockoutPermanent()'' []),
                                     Callback onLockoutPermanent]\<rparr>)"
    by (simp add: notify_def invoke_checked_def invoke_def emit_def fresh_session_def
          always_ok_def platform_h_def)
  from notify_lockout_permanent [OF r, of platform_h] r e show ?thesis by simp
qed

text \<open>
  C6. On a session with a registered callback, an authenticated message with finger id 0
  makes \<open>notify\<close> call \<open>onAuthenticationFailed\<close> and nothing else on the client
  (neither \<open>onError\<close> nor \<open>onAuthenticationSucceeded\<close>); with a finger id other than 0
  it calls \<open>onAuthenticationSucceeded\<close> with that id and the bytes of the token.
\<close>

theorem notify_authenticated:
  assumes "mSessionCallback s = Some cb"
  shows "(\<exists>s'. notify K Session_ptr (FINGERPRINT_AUTHENTICATED 0 hat) s = Inr s'
            \<and> callbacks_of (trace s') = callbacks_of (trace s) @ [onAuthenticationFailed])
       \<and> (fid \<noteq> 0 \<longrightarrow>
            (\<exists>s'. notify K Session_ptr (FINGERPRINT_AUTHENTICATED fid hat) s = Inr s'
               \<and> callbacks_of (trace s') =
                   callbacks_of (trace s) @ [onAuthenticationSucceeded fid hat]))"
  using assms
  by (simp add: notify_def invoke_checked_registered emit_fields callbacks_of_append)

theorem notify_authenticated_witness:
  "mSessionCallback fresh_session = Some always_ok
   \<and> (4 :: int32) \<noteq> 0
   \<and> notify platform_h Session_ptr (FINGERPRINT_AUTHENTICATED 0 [1, 2]) fresh_session =
       Inr (fresh_session\<lparr>trace := [Log (ALOGD ''onAuthenticationFailed()'' []),
                                     Callback onAuthenticationFailed]\<rparr>)
   \<and> notify platform_h Session_ptr (FINGERPRINT_AUTHENTICATED 4 [1, 2]) fresh_session =
       Inr (fresh_session\<lparr>trace :=
              [Log (ALOGD ''onAuthenticationSucceeded(fid=%d)'' [arg_int 4]),
               Callback (onAuthenticationSucceeded 4 [1, 2])]\<rparr>)"
proof -
  have r: "mSessionCallback fresh_session = Some always_ok"
    by (simp add: fresh_session_def)
  have e0: "notify platform_h Session_ptr (FINGERPRINT_AUTHENTICATED 0 [1, 2]) fresh_session =
       Inr (fresh_session\<lparr>trace := [Log (ALOGD ''onAuthenticationFailed()'' []),
                                     Callback onAuthenticationFailed]\<rparr>)"
    by (simp add: notify_def invoke_checked_def invoke_def emit_def fresh_session_def
          always_ok_def)
  have e4: "notify platform_h Session_ptr (FINGERPRINT_AUTHENTICATED 4 [1, 2]) fresh_session =
       Inr (fresh_session\<lparr>trace :=
              [Log (ALOGD ''onAuthenticationSucceeded(fid=%d)'' [arg_int 4]),
               Callback (onAuthenticationSucceeded 4 [1, 2])]\<rparr>)"
    by (simp add: notify_def invoke_checked_def invoke_def emit_def fresh_session_def
          always_ok_def)
  from notify_authenticated [OF r, where K = platform_h and fid = 4 and hat = "[1, 2]"] r e0 e4
  show ?thesis by simp
qed

subsection \<open>Closing the session\<close>

text \<open>
  C3. The specification has \<open>close\<close> idempotent: two calls in succession give one
  \<open>onSessionClosed\<close>, and the second changes nothing. The code run on a session just
  opened: the first \<open>close\<close> gives \<open>closed_session\<close>; the second one calls
  \<open>onSessionClosed\<close> again and deletes the death recipient again. The guard that
  \<open>onClientDeath\<close> puts before its call of \<open>close\<close> (fact
  \<open>onClientDeath_after_close\<close>) is not in \<open>close\<close> itself.
\<close>

theorem close_twice_notifies_twice:
  "close fresh_session = Inr (ScopedAStatus_ok, closed_session)
   \<and> close closed_session =
       Inr (ScopedAStatus_ok,
            closed_session\<lparr>trace := [Callback onSessionClosed, DeathRecipient_delete,
                                      Callback onSessionClosed, DeathRecipient_delete]\<rparr>)"
  by (simp add: close_def invoke_def emit_def fresh_session_def closed_session_def)

subsection \<open>Requests\<close>

text \<open>
  C9. On a session with a registered callback, \<open>detectInteraction\<close> returns the ok
  status and a cancellation signal, and all it does before is write one debug line and
  call \<open>onError(UNABLE_TO_PROCESS, 0)\<close>: the driver is not called.
\<close>

theorem detectInteraction_unsupported:
  assumes "mSessionCallback s = Some cb"
  shows "detectInteraction s =
           Inr (ScopedAStatus_ok, CancellationSignal,
                s\<lparr>trace := trace s @ [Log (ALOGD ''Detect interaction is not supported'' []),
                                      Callback (onError Error_UNABLE_TO_PROCESS 0)]\<rparr>)
       \<and> (\<exists>st tok s'. detectInteraction s = Inr (st, tok, s')
             \<and> device_calls_of (trace s') = device_calls_of (trace s))"
  using assms
  by (simp add: detectInteraction_def invoke_def emit_def device_calls_of_append)

theorem detectInteraction_unsupported_witness:
  "mSessionCallback fresh_session = Some always_ok
   \<and> detectInteraction fresh_session =
       Inr (ScopedAStatus_ok, CancellationSignal,
            fresh_session\<lparr>trace := [Log (ALOGD ''Detect interaction is not supported'' []),
                                      Callback (onError Error_UNABLE_TO_PROCESS 0)]\<rparr>)"
proof -
  have r: "mSessionCallback fresh_session = Some always_ok"
    by (simp add: fresh_session_def)
  have t: "trace fresh_session = []"
    by (simp add: fresh_session_def)
  from detectInteraction_unsupported [OF r] r t show ?thesis by simp
qed


subsection \<open>The lockout timer\<close>

text \<open>
  C7, as the specification states it: once \<open>resetLockout\<close> has been called before
  the timer's action fires, the action does not clear a second time. It fails in two
  ways. First, a timer of 1000 ms is started and \<open>resetLockout\<close> runs after 400 ms;
  100 ms later the timer is started again, which clears the abort flag; when the first
  thread runs at 1000 ms it resets the tracker and calls \<open>onLockoutCleared\<close> a second
  time. Second, with a single timer: \<open>resetLockout\<close> is called when the 1000 ms have
  just passed, the thread runs its action after line 133 and before line 134, finds the
  flag not yet set and clears a second time.
\<close>

theorem resetLockout_expiry_counterexample:
  "resetLockout () (tick 400 (startLockoutTimer 1000 fresh_session)) =
     Inr (ScopedAStatus_ok,
          fresh_session\<lparr>mIsLockoutTimerStarted := True, mIsLockoutTimerAborted := True,
            trace := [Tracker (LockoutTracker_reset True), Callback onLockoutCleared],
            clock := 400, threads := [1000]\<rparr>)
   \<and> thread_run 0
       (tick 500 (startLockoutTimer 1000 (tick 100
          (fresh_session\<lparr>mIsLockoutTimerStarted := True, mIsLockoutTimerAborted := True,
             trace := [Tracker (LockoutTracker_reset True), Callback onLockoutCleared],
             clock := 400, threads := [1000]\<rparr>)))) =
       Some (Inr (fresh_session\<lparr>
          trace := [Tracker (LockoutTracker_reset True), Callback onLockoutCleared,
                    Tracker (LockoutTracker_reset False), Callback onLockoutCleared],
          clock := 1000, threads := [1500]\<rparr>))
   \<and> resetLockout_clear (tick 1000 (startLockoutTimer 1000 fresh_session)) =
       Inr (fresh_session\<lparr>mIsLockoutTimerStarted := True,
              trace := [Tracker (LockoutTracker_reset True), Callback onLockoutCleared],
              clock := 1000, threads := [1000]\<rparr>)
   \<and> thread_run 0
        (fresh_session\<lparr>mIsLockoutTimerStarted := True,
            trace := [Tracker (LockoutTracker_reset True), Callback onLockoutCleared],
            clock := 1000, threads := [1000]\<rparr>) =
       Some (Inr (fresh_session\<lparr>
          trace := [Tracker (LockoutTracker_reset True), Callback onLockoutCleared,
                    Tracker (LockoutTracker_reset False), Callback onLockoutCleared],
          clock := 1000\<rparr>))
   \<and> resetLockout_abort
        (fresh_session\<lparr>
          trace := [Tracker (LockoutTracker_reset True), Callback onLockoutCleared,
                    Tracker (LockoutTracker_reset False), Callback onLockoutCleared],
          clock := 1000\<rparr>) =
       (ScopedAStatus_ok,
        fresh_session\<lparr>mIsLockoutTimerAborted := True,
          trace := [Tracker (LockoutTracker_reset True), Callback onLockoutCleared,
                    Tracker (LockoutTracker_reset False), Callback onLockoutCleared],
          clock := 1000\<rparr>)"
  by (simp add: thread_run_def tick_def startLockoutTimer_def lockoutTimerExpired_def
        resetLockout_def resetLockout_clear_def resetLockout_abort_def
        clearLockout_def invoke_def emit_def fresh_session_def)

text \<open>
  C7, amended. On a session with a registered callback, \<open>resetLockout\<close> run through
  both its statements returns ok, has reset the tracker with \<open>true\<close> and called
  \<open>onLockoutCleared\<close>, and leaves the abort flag set, and nothing else is changed. In
  any state \<open>w\<close> whose abort flag is set, a thread whose sleep has ended runs its
  action without adding to the trace (no reset of the tracker, no
  \<open>onLockoutCleared\<close>) and leaves both flags false. In particular: start a timer of
  duration \<open>D\<close>, let \<open>a\<close> milliseconds pass, run \<open>resetLockout\<close>, let \<open>b\<close>
  more pass, with no other step in between; the timer's thread cannot run its action
  while \<open>a + b < D\<close>, and once \<open>D \<le> a + b\<close> its action adds nothing to the trace.
\<close>

theorem resetLockout_completed_aborts_timer:
  assumes "mSessionCallback s = Some cb"
  shows "(\<exists>s2. resetLockout hat s = Inr (ScopedAStatus_ok, s2)
            \<and> s2 = s\<lparr>trace := trace s @ [Tracker (LockoutTracker_reset True),
                                            Callback onLockoutCleared],
                      mIsLockoutTimerAborted := True\<rparr>)
       \<and> (mIsLockoutTimerAborted w \<and> i < length (threads w) \<and> threads w ! i \<le> clock w \<longrightarrow>
            (\<exists>w'. thread_run i w = Some (Inr w') \<and> trace w' = trace w
               \<and> \<not> mIsLockoutTimerStarted w' \<and> \<not> mIsLockoutTimerAborted w'))
       \<and> (\<exists>s2. resetLockout hat (tick a (startLockoutTimer D s)) = Inr (ScopedAStatus_ok, s2)
            \<and> trace s2 = trace s @ [Tracker (LockoutTracker_reset True), Callback onLockoutCleared]
            \<and> mIsLockoutTimerAborted s2
            \<and> (int a + int b < D \<longrightarrow> thread_run (length (threads s)) (tick b s2) = None)
            \<and> (D \<le> int a + int b \<longrightarrow>
                 (\<exists>s3. thread_run (length (threads s)) (tick b s2) = Some (Inr s3)
                    \<and> trace s3 = trace s2
                    \<and> \<not> mIsLockoutTimerStarted s3 \<and> \<not> mIsLockoutTimerAborted s3
                    \<and> threads s3 = threads s)))"
  using assms
  by (simp add: resetLockout_def resetLockout_clear_def resetLockout_abort_def
        clearLockout_registered tick_def startLockoutTimer_def
        thread_run_def lockoutTimerExpired_aborted nth_append)

theorem resetLockout_completed_aborts_timer_witness:
  "mSessionCallback fresh_session = Some always_ok
   \<and> (mIsLockoutTimerAborted (tick 600 (closed_session\<lparr>mIsLockoutTimerAborted := True,
                                                       threads := [500]\<rparr>))
        \<and> 0 < length (threads (tick 600 (closed_session\<lparr>mIsLockoutTimerAborted := True,
                                                          threads := [500]\<rparr>)))
        \<and> threads (tick 600 (closed_session\<lparr>mIsLockoutTimerAborted := True,
                                              threads := [500]\<rparr>)) ! 0
            \<le> clock (tick 600 (closed_session\<lparr>mIsLockoutTimerAborted := True,
                                                threads := [500]\<rparr>)))
   \<and> (\<exists>w'. thread_run 0 (tick 600 (closed_session\<lparr>mIsLockoutTimerAborted := True,
                                                       threads := [500]\<rparr>)) = Some (Inr w')
          \<and> trace w' = [Callback onSessionClosed, DeathRecipient_delete])
   \<and> int 400 + int 100 < (1000::int)
   \<and> (1000::int) \<le> int 400 + int 600
   \<and> (\<exists>s2. resetLockout () (tick 400 (startLockoutTimer 1000 fresh_session)) =
               Inr (ScopedAStatus_ok, s2)
          \<and> trace s2 = [Tracker (LockoutTracker_reset True), Callback onLockoutCleared]
          \<and> thread_run 0 (tick 100 s2) = None
          \<and> (\<exists>s3. thread_run 0 (tick 600 s2) = Some (Inr s3) \<and> trace s3 = trace s2))"
proof -
  let ?w = "tick 600 (closed_session\<lparr>mIsLockoutTimerAborted := True, threads := [500]\<rparr>)"
  have r: "mSessionCallback fresh_session = Some always_ok"
    by (simp add: fresh_session_def)
  have t: "trace fresh_session = []" "threads fresh_session = []"
    by (simp_all add: fresh_session_def)
  have w: "mIsLockoutTimerAborted ?w \<and> 0 < length (threads ?w) \<and> threads ?w ! 0 \<le> clock ?w"
          "trace ?w = [Callback onSessionClosed, DeathRecipient_delete]"
    by (simp_all add: tick_def closed_session_def fresh_session_def)
  from resetLockout_completed_aborts_timer
         [OF r, where hat = "()" and a = 400 and D = 1000 and b = 600 and w = ?w and i = 0]
       resetLockout_completed_aborts_timer
         [OF r, where hat = "()" and a = 400 and D = 1000 and b = 100 and w = ?w and i = 0]
  show ?thesis
    using r t w by auto
qed




end
